theory Spec2Isabelle
  imports Main "HOL-Library.Sublist" "HOL-Library.AList"
begin

section \<open>Python values, exceptions and string primitives\<close>

text \<open>
  The upstream listings API answers with JSON, which the program handles as untyped
  Python values (\<^verbatim>\<open>Dict[str, Any]\<close>). A JSON value is modelled by the datatype below:
  an object is an association list read with \<open>map_of\<close> (keys of a Python dict are unique),
  numbers are integers (fractional numbers are outside the model), and a character is an
  8-bit code point, so strings are Latin-1 text.
\<close>

datatype json =
    JNull
  | JBool bool
  | JInt int
  | JStr string
  | JList "json list"
  | JObj "(string \<times> json) list"

text \<open>
  Every exception the modelled code can raise is a value. \<open>HTTPError\<close> is the
  \<^verbatim>\<open>Exception\<close> raised by \<^verbatim>\<open>fetch_showtimes_page\<close> for a status other than 200 (it carries
  the status), \<open>TransportError\<close> a failure of the HTTP client, \<open>InvalidMovieId\<close> the
  exception raised by \<^verbatim>\<open>decode_movie_id\<close>.
\<close>

datatype error =
    KeyError
  | TypeError
  | AttributeError
  | ValueError
  | IndexError
  | ValidationError
  | HTTPError nat
  | TransportError
  | InvalidMovieId

definition ebind :: "error + 'a \<Rightarrow> ('a \<Rightarrow> error + 'b) \<Rightarrow> error + 'b" where
  "ebind m f = (case m of Inl e \<Rightarrow> Inl e | Inr v \<Rightarrow> f v)"

text \<open>\<^verbatim>\<open>sub in s\<close> for two strings: \<open>sub\<close> occurs in \<open>s\<close> as a contiguous block.\<close>

fun py_contains :: "string \<Rightarrow> string \<Rightarrow> bool" where
  "py_contains sub [] = (sub = [])"
| "py_contains sub (c # cs) = (prefix sub (c # cs) \<or> py_contains sub cs)"

text \<open>
  \<^verbatim>\<open>s.split(sep)\<close>: the text is cut at every occurrence of \<open>sep\<close>, scanning from the
  left, occurrences not overlapping. \<open>cur\<close> is the piece being read. The program calls it
  with the literals \<^verbatim>\<open>"h"\<close>, \<^verbatim>\<open>"min"\<close> and \<^verbatim>\<open>":"\<close> only (Python rejects an empty separator).
\<close>

function py_split_from :: "string \<Rightarrow> string \<Rightarrow> string \<Rightarrow> string list" where
  "py_split_from sep cur [] = [cur]"
| "py_split_from sep cur (c # cs) =
     (if sep \<noteq> [] \<and> prefix sep (c # cs)
      then cur # py_split_from sep [] (drop (length sep) (c # cs))
      else py_split_from sep (cur @ [c]) cs)"
  by pat_completeness auto
termination
  by (relation "measure (\<lambda>(sep, cur, s). length s)") auto

definition py_split :: "string \<Rightarrow> string \<Rightarrow> string list" where
  "py_split s sep = py_split_from sep [] s"

text \<open>
  \<^verbatim>\<open>s.split()\<close> with no argument cuts at runs of whitespace and yields no empty piece.
  Whitespace is \<^verbatim>\<open>str.isspace\<close>: code points 9 to 13, 28 to 32, 133 and 160.
\<close>

definition py_isspace :: "char \<Rightarrow> bool" where
  "py_isspace c = (c \<in> {CHR 0x09, CHR 0x0A, CHR 0x0B, CHR 0x0C, CHR 0x0D, CHR 0x1C, CHR 0x1D,
     CHR 0x1E, CHR 0x1F, CHR 0x20, CHR 0x85, CHR 0xA0})"

fun py_split_ws_from :: "string \<Rightarrow> string \<Rightarrow> string list" where
  "py_split_ws_from cur [] = (if cur = [] then [] else [cur])"
| "py_split_ws_from cur (c # cs) =
     (if py_isspace c
      then (if cur = [] then py_split_ws_from [] cs else cur # py_split_ws_from [] cs)
      else py_split_ws_from (cur @ [c]) cs)"

definition py_split_ws :: "string \<Rightarrow> string list" where
  "py_split_ws s = py_split_ws_from [] s"

text \<open>\<^verbatim>\<open>xs[0]\<close> and \<^verbatim>\<open>xs[-1]\<close>: an empty list raises \<^verbatim>\<open>IndexError\<close>.\<close>

definition py_first :: "'a list \<Rightarrow> error + 'a" where
  "py_first xs = (case xs of [] \<Rightarrow> Inl IndexError | x # _ \<Rightarrow> Inr x)"

definition py_last :: "'a list \<Rightarrow> error + 'a" where
  "py_last xs = (if xs = [] then Inl IndexError else Inr (last xs))"

text \<open>
  \<^verbatim>\<open>int(s)\<close> for a string: surrounding whitespace is dropped (code points 9 to 13, 32, 133
  and 160: the separators 28 to 31 are not skipped by \<^verbatim>\<open>int\<close>), then comes an optional
  sign and decimal digits, where one underscore may stand between two digits. Anything else
  raises \<^verbatim>\<open>ValueError\<close>. The interpreter's limit on the number of digits is not modelled.
\<close>

definition int_space :: "char \<Rightarrow> bool" where
  "int_space c = (c \<in> {CHR 0x09, CHR 0x0A, CHR 0x0B, CHR 0x0C, CHR 0x0D, CHR 0x20, CHR 0x85,
     CHR 0xA0})"

definition py_strip :: "string \<Rightarrow> string" where
  "py_strip s = rev (dropWhile int_space (rev (dropWhile int_space s)))"

definition digit_val :: "char \<Rightarrow> nat option" where
  "digit_val c =
     map_of [(CHR ''0'', 0), (CHR ''1'', 1), (CHR ''2'', 2), (CHR ''3'', 3), (CHR ''4'', 4),
             (CHR ''5'', 5), (CHR ''6'', 6), (CHR ''7'', 7), (CHR ''8'', 8), (CHR ''9'', 9)] c"

fun py_digits :: "nat \<Rightarrow> string \<Rightarrow> nat option" where
  "py_digits acc [] = Some acc"
| "py_digits acc (c # cs) =
     (if c = CHR ''_''
      then (case cs of
              [] \<Rightarrow> None
            | d # ds \<Rightarrow> (case digit_val d of
                          None \<Rightarrow> None
                        | Some v \<Rightarrow> py_digits (10 * acc + v) ds))
      else (case digit_val c of
              None \<Rightarrow> None
            | Some v \<Rightarrow> py_digits (10 * acc + v) cs))"

definition py_nat_literal :: "string \<Rightarrow> nat option" where
  "py_nat_literal s =
     (case s of
        [] \<Rightarrow> None
      | c # cs \<Rightarrow> (case digit_val c of None \<Rightarrow> None | Some v \<Rightarrow> py_digits v cs))"

definition py_int_literal :: "string \<Rightarrow> int option" where
  "py_int_literal s =
     (case py_strip s of
        [] \<Rightarrow> None
      | c # cs \<Rightarrow>
          if c = CHR ''-'' then map_option (\<lambda>n. - int n) (py_nat_literal cs)
          else if c = CHR ''+'' then map_option int (py_nat_literal cs)
          else map_option int (py_nat_literal (c # cs)))"

definition py_int_str :: "string \<Rightarrow> error + int" where
  "py_int_str s = (case py_int_literal s of None \<Rightarrow> Inl ValueError | Some n \<Rightarrow> Inr n)"

section \<open>The runtime parser\<close>

text \<open>
  \<^verbatim>\<open>marker in runtime_str\<close> where \<^verbatim>\<open>runtime_str\<close> is any JSON value: substring test on a
  string, membership on a list, key test on a dict, \<^verbatim>\<open>TypeError\<close> on a number or a boolean.
\<close>

fun py_in :: "string \<Rightarrow> json \<Rightarrow> error + bool" where
  "py_in sub (JStr s) = Inr (py_contains sub s)"
| "py_in sub (JList xs) = Inr (JStr sub \<in> set xs)"
| "py_in sub (JObj kvs) = Inr (sub \<in> fst ` set kvs)"
| "py_in sub v = Inl TypeError"

text \<open>\<^verbatim>\<open>v.split(sep)\<close>: only a string has the method.\<close>

fun py_split_method :: "json \<Rightarrow> string \<Rightarrow> error + string list" where
  "py_split_method (JStr s) sep = Inr (py_split s sep)"
| "py_split_method v sep = Inl AttributeError"

text \<open>
  \<^verbatim>\<open>Theater._parse_runtime\<close> (models.py, lines 237 to 259). \<open>JNull\<close> is Python's
  \<^verbatim>\<open>None\<close>.
\<close>

definition parse_runtime :: "json \<Rightarrow> error + int" where
  "parse_runtime runtime_str =
     (if runtime_str = JNull then Inr 0
      else
        ebind (ebind (py_in ''h'' runtime_str) (\<lambda>has_h.
                 if has_h
                 then ebind (py_split_method runtime_str ''h'') (\<lambda>parts.
                      ebind (py_first parts) py_int_str)
                 else Inr 0)) (\<lambda>hours.
        ebind (ebind (py_in ''min'' runtime_str) (\<lambda>has_min.
                 if has_min
                 then ebind (py_split_method runtime_str ''min'') (\<lambda>parts.
                      ebind (py_first parts) (\<lambda>text_before.
                      ebind (py_last (py_split_ws text_before)) py_int_str))
                 else Inr 0)) (\<lambda>minutes.
        Inr (hours * 60 + minutes))))"

section \<open>Access to JSON values\<close>

text \<open>Truth value of a JSON value in a condition (\<^verbatim>\<open>if v\<close>, \<^verbatim>\<open>a and b\<close>).\<close>

fun truthy :: "json \<Rightarrow> bool" where
  "truthy JNull = False"
| "truthy (JBool b) = b"
| "truthy (JInt n) = (n \<noteq> 0)"
| "truthy (JStr s) = (s \<noteq> [])"
| "truthy (JList xs) = (xs \<noteq> [])"
| "truthy (JObj kvs) = (kvs \<noteq> [])"

text \<open>\<^verbatim>\<open>d.get(key, default)\<close>: only a dict has the method.\<close>

fun py_get :: "json \<Rightarrow> string \<Rightarrow> json \<Rightarrow> error + json" where
  "py_get (JObj kvs) k dflt = Inr (case map_of kvs k of None \<Rightarrow> dflt | Some v \<Rightarrow> v)"
| "py_get v k dflt = Inl AttributeError"

text \<open>
  \<^verbatim>\<open>d[key]\<close> with a string key: \<^verbatim>\<open>KeyError\<close> on a dict without the key, \<^verbatim>\<open>TypeError\<close> on
  every value that is not a dict.
\<close>

fun py_getitem :: "json \<Rightarrow> string \<Rightarrow> error + json" where
  "py_getitem (JObj kvs) k = (case map_of kvs k of None \<Rightarrow> Inl KeyError | Some v \<Rightarrow> Inr v)"
| "py_getitem v k = Inl TypeError"

text \<open>
  The items a \<^verbatim>\<open>for\<close> loop runs over: the elements of a list, the characters of a string,
  the keys of a dict; other values are not iterable.
\<close>

fun py_iter :: "json \<Rightarrow> error + json list" where
  "py_iter (JList xs) = Inr xs"
| "py_iter (JStr s) = Inr (map (\<lambda>c. JStr [c]) s)"
| "py_iter (JObj kvs) = Inr (map (\<lambda>kv. JStr (fst kv)) kvs)"
| "py_iter v = Inl TypeError"

text \<open>\<^verbatim>\<open>a + b\<close>: lists and strings are concatenated, numbers and booleans added.\<close>

fun py_num :: "json \<Rightarrow> int option" where
  "py_num (JInt n) = Some n"
| "py_num (JBool b) = Some (if b then 1 else 0)"
| "py_num v = None"

fun py_add :: "json \<Rightarrow> json \<Rightarrow> error + json" where
  "py_add (JList xs) (JList ys) = Inr (JList (xs @ ys))"
| "py_add (JStr s) (JStr t) = Inr (JStr (s @ t))"
| "py_add a b =
     (case (py_num a, py_num b) of
        (Some m, Some n) \<Rightarrow> Inr (JInt (m + n))
      | _ \<Rightarrow> Inl TypeError)"

text \<open>\<^verbatim>\<open>int(v)\<close> for a JSON value.\<close>

fun py_int :: "json \<Rightarrow> error + int" where
  "py_int (JInt n) = Inr n"
| "py_int (JBool b) = Inr (if b then 1 else 0)"
| "py_int (JStr s) = py_int_str s"
| "py_int v = Inl TypeError"

text \<open>Decimal text of a number, as \<^verbatim>\<open>str\<close> and an f-string give it.\<close>

definition digit_char :: "nat \<Rightarrow> char" where
  "digit_char n = ''0123456789'' ! n"

fun py_str_nat :: "nat \<Rightarrow> string" where
  "py_str_nat n =
     (if n < 10 then [digit_char n] else py_str_nat (n div 10) @ [digit_char (n mod 10)])"

declare py_str_nat.simps [simp del]

definition py_str_int :: "int \<Rightarrow> string" where
  "py_str_int i = (if i < 0 then CHR ''-'' # py_str_nat (nat (- i)) else py_str_nat (nat i))"

text \<open>\<^verbatim>\<open>sep.join(xs)\<close>.\<close>

fun py_join :: "string \<Rightarrow> string list \<Rightarrow> string" where
  "py_join sep [] = []"
| "py_join sep [x] = x"
| "py_join sep (x # y # ys) = x @ sep @ py_join sep (y # ys)"

section \<open>Data model\<close>

text \<open>
  The classes of models.py. \<open>movie_id\<close> is the field \<^verbatim>\<open>id\<close> of \<^verbatim>\<open>Movie\<close>. A
  \<^verbatim>\<open>datetime\<close> is kept as its fields.
\<close>

record movie =
  title :: string
  runtime :: int
  genres :: "string list"
  cast :: "string list"
  director :: string
  synopsis :: string
  affiche :: string
  wantToSee :: int
  movie_id :: int

record theater =
  name :: string
  internal_id :: string
  location :: "string option"

record datetime =
  year :: nat
  month :: nat
  day :: nat
  hour :: nat
  minute :: nat
  second :: nat

record showtime =
  movie :: movie
  theater :: theater
  start_at :: datetime

text \<open>
  Library functions the program calls and this repository does not define are parameters:
  \<^item> \<open>str_of\<close>: \<^verbatim>\<open>str(v)\<close> for a value that is not a string, used by f-strings;
  \<^item> \<open>b64decode_utf8\<close>: \<^verbatim>\<open>base64.b64decode(s).decode("utf-8")\<close>, \<open>None\<close> when either step
    raises (both raise subclasses of \<^verbatim>\<open>ValueError\<close>);
  \<^item> \<open>strptime\<close>: \<^verbatim>\<open>datetime.strptime(s, "%Y-%m-%dT%H:%M:%S")\<close>, \<open>None\<close> for \<^verbatim>\<open>ValueError\<close>.
\<close>

record pylib =
  str_of :: "json \<Rightarrow> string"
  b64decode_utf8 :: "string \<Rightarrow> string option"
  strptime :: "string \<Rightarrow> datetime option"

text \<open>A value interpolated in an f-string: a string as it is, any other value through \<^verbatim>\<open>str\<close>.\<close>

definition py_format :: "pylib \<Rightarrow> json \<Rightarrow> string" where
  "py_format lib v = (case v of JStr s \<Rightarrow> s | _ \<Rightarrow> str_of lib v)"

section \<open>The movie parser\<close>

text \<open>
  \<^verbatim>\<open>Theater.parse_cast\<close> (models.py, lines 188 to 213). \<open>parse_cast_loop\<close> is the
  \<^verbatim>\<open>for\<close> loop, \<open>names\<close> the list \<^verbatim>\<open>cast\<close> it appends to.
\<close>

fun parse_cast_loop :: "pylib \<Rightarrow> json list \<Rightarrow> string list \<Rightarrow> error + string list" where
  "parse_cast_loop lib [] names = Inr names"
| "parse_cast_loop lib (node_dict # rest) names =
     ebind (py_get node_dict ''node'' (JObj [])) (\<lambda>node.
     ebind (py_get node ''actor'' (JObj [])) (\<lambda>actor_info.
       if truthy actor_info
       then
         ebind (py_get actor_info ''firstName'' (JStr '' '')) (\<lambda>firstname.
         ebind (py_get actor_info ''lastName'' (JStr '' '')) (\<lambda>lastname.
           parse_cast_loop lib rest
             (names @ [if truthy firstname \<and> truthy lastname
                      then py_format lib firstname @ '' '' @ py_format lib lastname
                      else ''Unknown''])))
       else parse_cast_loop lib rest names))"

definition parse_cast :: "pylib \<Rightarrow> json \<Rightarrow> error + string list" where
  "parse_cast lib edges = ebind (py_iter edges) (\<lambda>es. parse_cast_loop lib es [])"

text \<open>\<^verbatim>\<open>Theater.parse_director\<close> (models.py, lines 215 to 235).\<close>

definition parse_director :: "pylib \<Rightarrow> json \<Rightarrow> error + string" where
  "parse_director lib credits =
     (case credits of
        JList (c # cs) \<Rightarrow>
          ebind (py_get c ''person'' (JObj [])) (\<lambda>person.
          ebind (py_get person ''firstName'' (JStr ''Unknown'')) (\<lambda>first_name.
          ebind (py_get person ''lastName'' (JStr ''Unknown'')) (\<lambda>last_name.
          Inr (py_format lib first_name @ '' '' @ py_format lib last_name))))
      | _ \<Rightarrow> Inr ''Unknown'')"

text \<open>
  \<^verbatim>\<open>Theater.decode_movie_id\<close> (models.py, lines 161 to 186): every \<^verbatim>\<open>ValueError\<close> and
  \<^verbatim>\<open>TypeError\<close> of the decoding is caught and raised again as one exception.
\<close>

definition decode_movie_id :: "pylib \<Rightarrow> json \<Rightarrow> error + int" where
  "decode_movie_id lib encoded_id =
     (case encoded_id of
        JStr s \<Rightarrow>
          (case b64decode_utf8 lib s of
             None \<Rightarrow> Inl InvalidMovieId
           | Some decoded \<Rightarrow>
               (case py_int_literal (last (py_split decoded '':'')) of
                  None \<Rightarrow> Inl InvalidMovieId
                | Some n \<Rightarrow> Inr n))
      | _ \<Rightarrow> Inl InvalidMovieId)"

text \<open>
  A field declared \<^verbatim>\<open>str\<close> in a pydantic model accepts a string only; the constructor
  raises \<^verbatim>\<open>ValidationError\<close> otherwise.
\<close>

fun validate_str :: "json \<Rightarrow> error + string" where
  "validate_str (JStr s) = Inr s"
| "validate_str v = Inl ValidationError"

fun validate_str_list :: "json list \<Rightarrow> error + string list" where
  "validate_str_list [] = Inr []"
| "validate_str_list (v # vs) =
     ebind (validate_str v) (\<lambda>s. ebind (validate_str_list vs) (\<lambda>ss. Inr (s # ss)))"

text \<open>The list comprehension \<^verbatim>\<open>[genre["translate"] for genre in ...]\<close>.\<close>

fun genre_names :: "json list \<Rightarrow> error + json list" where
  "genre_names [] = Inr []"
| "genre_names (genre # rest) =
     ebind (py_getitem genre ''translate'') (\<lambda>g.
     ebind (genre_names rest) (\<lambda>gs. Inr (g # gs)))"

text \<open>\<^verbatim>\<open>Theater.parse_movie\<close> (models.py, lines 124 to 159), in the order of the source.\<close>

definition parse_movie :: "pylib \<Rightarrow> json \<Rightarrow> error + movie" where
  "parse_movie lib movie_info =
     ebind (py_get movie_info ''runtime'' JNull) (\<lambda>runtime_str.
     ebind (parse_runtime runtime_str) (\<lambda>runtime_min.
     ebind (py_get movie_info ''genres'' (JList [])) (\<lambda>genre_list.
     ebind (py_iter genre_list) (\<lambda>genre_items.
     ebind (genre_names genre_items) (\<lambda>genre_values.
     ebind (py_get movie_info ''cast'' (JObj [])) (\<lambda>cast_info.
     ebind (py_get cast_info ''edges'' (JList [])) (\<lambda>edges.
     ebind (parse_cast lib edges) (\<lambda>cast_names.
     ebind (py_get movie_info ''credits'' (JList [])) (\<lambda>credits.
     ebind (parse_director lib credits) (\<lambda>director_name.
     ebind (py_get movie_info ''poster'' JNull) (\<lambda>affiche_info.
     ebind (if truthy affiche_info then py_get affiche_info ''url'' (JStr [])
            else Inr (JStr [])) (\<lambda>affiche_value.
     ebind (py_get movie_info ''wantToSee'' (JInt 0)) (\<lambda>wts.
     ebind (py_int wts) (\<lambda>want_to_see.
     ebind (py_getitem movie_info ''id'') (\<lambda>encoded_id.
     ebind (decode_movie_id lib encoded_id) (\<lambda>mid.
     ebind (py_getitem movie_info ''title'') (\<lambda>title_value.
     ebind (py_get movie_info ''synopsis'' (JStr [])) (\<lambda>synopsis_value.
     ebind (validate_str title_value) (\<lambda>title_str.
     ebind (validate_str_list genre_values) (\<lambda>genre_strs.
     ebind (validate_str synopsis_value) (\<lambda>synopsis_str.
     ebind (validate_str affiche_value) (\<lambda>affiche_str.
     Inr \<lparr>title = title_str, runtime = runtime_min, genres = genre_strs, cast = cast_names,
          director = director_name, synopsis = synopsis_str, affiche = affiche_str,
          wantToSee = want_to_see, movie_id = mid\<rparr>))))))))))))))))))))))"

section \<open>The theater paginator\<close>

text \<open>
  The upstream server is a parameter. Its answer may change from one request to the next,
  so the client is asked with the number of requests made before (the length of the call
  log), the theater's internal id, the date and the page: the three values the URL is built
  from. A date is a day number. An answer is a transport failure, or a status code with the
  body decoded as JSON (\<open>None\<close> when the body is not JSON).
\<close>

datatype http_result = TransportFailure | Response nat "json option"

type_synonym date = int

type_synonym call = "string \<times> date \<times> nat"

type_synonym http_client = "nat \<Rightarrow> string \<Rightarrow> date \<Rightarrow> nat \<Rightarrow> http_result"

text \<open>
  \<^verbatim>\<open>Theater.fetch_showtimes_page\<close> (models.py, lines 58 to 67). A transport failure is the
  client's own exception; a body that is not JSON makes \<^verbatim>\<open>response.json()\<close> raise a
  \<^verbatim>\<open>ValueError\<close>.
\<close>

definition fetch_showtimes_page ::
  "http_client \<Rightarrow> nat \<Rightarrow> theater \<Rightarrow> date \<Rightarrow> nat \<Rightarrow> error + json" where
  "fetch_showtimes_page client ncalls self date page =
     (case client ncalls (internal_id self) date page of
        TransportFailure \<Rightarrow> Inl TransportError
      | Response status_code body \<Rightarrow>
          if status_code \<noteq> 200 then Inl (HTTPError status_code)
          else (case body of None \<Rightarrow> Inl ValueError | Some data \<Rightarrow> Inr data))"

text \<open>The stop test of lines 90 to 94: one of the two messages, or a truthy \<^verbatim>\<open>error\<close>.\<close>

definition stop_signal :: "json \<Rightarrow> error + bool" where
  "stop_signal data =
     ebind (py_get data ''message'' JNull) (\<lambda>message.
       if message \<in> set [JStr ''no.showtime.error'', JStr ''next.showtime.on''] then Inr True
       else ebind (py_get data ''error'' JNull) (\<lambda>err. Inr (truthy err)))"

text \<open>\<^verbatim>\<open>datetime.strptime(v, ...)\<close> for a JSON value: \<^verbatim>\<open>TypeError\<close> unless it is a string.\<close>

definition py_strptime :: "pylib \<Rightarrow> json \<Rightarrow> error + datetime" where
  "py_strptime lib v =
     (case v of
        JStr s \<Rightarrow> (case strptime lib s of None \<Rightarrow> Inl ValueError | Some t \<Rightarrow> Inr t)
      | _ \<Rightarrow> Inl TypeError)"

text \<open>The inner loop of lines 105 to 113: one showtime appended for each entry.\<close>

fun append_showtimes ::
  "pylib \<Rightarrow> movie \<Rightarrow> theater \<Rightarrow> json list \<Rightarrow> showtime list \<Rightarrow> error + showtime list" where
  "append_showtimes lib m self [] showtimes = Inr showtimes"
| "append_showtimes lib m self (showtime_data # rest) showtimes =
     ebind (py_getitem showtime_data ''startsAt'') (\<lambda>starts_at.
     ebind (py_strptime lib starts_at) (\<lambda>start_time.
     append_showtimes lib m self rest
       (showtimes @ [\<lparr>movie = m, theater = self, start_at = start_time\<rparr>])))"

text \<open>
  The loop over \<^verbatim>\<open>data["results"]\<close> (lines 97 to 113): the movie is parsed, the dubbed,
  original and local lists are concatenated in this order, and the inner loop runs.
\<close>

fun parse_results ::
  "pylib \<Rightarrow> theater \<Rightarrow> json list \<Rightarrow> showtime list \<Rightarrow> error + showtime list" where
  "parse_results lib self [] showtimes = Inr showtimes"
| "parse_results lib self (movie_data # rest) showtimes =
     ebind (py_getitem movie_data ''movie'') (\<lambda>movie_info.
     ebind (parse_movie lib movie_info) (\<lambda>m.
     ebind (py_getitem movie_data ''showtimes'') (\<lambda>st.
     ebind (py_get st ''dubbed'' (JList [])) (\<lambda>dubbed.
     ebind (py_get st ''original'' (JList [])) (\<lambda>original.
     ebind (py_add dubbed original) (\<lambda>dubbed_original.
     ebind (py_get st ''local'' (JList [])) (\<lambda>local.
     ebind (py_add dubbed_original local) (\<lambda>showtime_list.
     ebind (py_iter showtime_list) (\<lambda>items.
     ebind (append_showtimes lib m self items showtimes) (\<lambda>showtimes'.
     parse_results lib self rest showtimes'))))))))))"

definition parse_page ::
  "pylib \<Rightarrow> theater \<Rightarrow> json \<Rightarrow> showtime list \<Rightarrow> error + showtime list" where
  "parse_page lib self data showtimes =
     ebind (py_getitem data ''results'') (\<lambda>results.
     ebind (py_iter results) (\<lambda>blocks.
     parse_results lib self blocks showtimes))"

text \<open>The last-page test of lines 116 to 118.\<close>

definition last_page :: "json \<Rightarrow> error + bool" where
  "last_page data =
     ebind (py_getitem data ''pagination'') (\<lambda>pagination.
     ebind (py_getitem pagination ''page'') (\<lambda>page_value.
     ebind (py_int page_value) (\<lambda>page_no.
     ebind (py_getitem data ''pagination'') (\<lambda>pagination'.
     ebind (py_getitem pagination' ''totalPages'') (\<lambda>total_value.
     ebind (py_int total_value) (\<lambda>total.
     Inr (page_no \<ge> total)))))))"

text \<open>
  \<^verbatim>\<open>Theater.get_showtimes\<close> (models.py, lines 84 to 122). The \<^verbatim>\<open>while True\<close> loop may run
  for ever (an upstream that always announces one more page), so the result is an option and
  \<open>None\<close> is a run that does not return. A run that returns gives the list or the
  exception, and the log of the requests made, each with theater id, date and page.
\<close>

partial_function (option) get_showtimes_loop ::
  "pylib \<Rightarrow> http_client \<Rightarrow> theater \<Rightarrow> date \<Rightarrow> nat \<Rightarrow> showtime list \<Rightarrow> call list
     \<Rightarrow> ((error + showtime list) \<times> call list) option" where
  "get_showtimes_loop lib client self date page showtimes calls =
     (case fetch_showtimes_page client (length calls) self date page of
        Inl e \<Rightarrow> Some (Inl e, calls @ [(internal_id self, date, page)])
      | Inr data \<Rightarrow>
          (case stop_signal data of
             Inl e \<Rightarrow> Some (Inl e, calls @ [(internal_id self, date, page)])
           | Inr stop \<Rightarrow>
               if stop then Some (Inr showtimes, calls @ [(internal_id self, date, page)])
               else
                 (case parse_page lib self data showtimes of
                    Inl e \<Rightarrow> Some (Inl e, calls @ [(internal_id self, date, page)])
                  | Inr showtimes' \<Rightarrow>
                      (case last_page data of
                         Inl e \<Rightarrow> Some (Inl e, calls @ [(internal_id self, date, page)])
                       | Inr is_last \<Rightarrow>
                           if is_last
                           then Some (Inr showtimes', calls @ [(internal_id self, date, page)])
                           else get_showtimes_loop lib client self date (page + 1) showtimes'
                                  (calls @ [(internal_id self, date, page)])))))"

declare get_showtimes_loop.simps [code]

definition get_showtimes ::
  "pylib \<Rightarrow> http_client \<Rightarrow> theater \<Rightarrow> date \<Rightarrow> call list
     \<Rightarrow> ((error + showtime list) \<times> call list) option" where
  "get_showtimes lib client self date calls = get_showtimes_loop lib client self date 1 [] calls"

section \<open>The aggregator\<close>

text \<open>
  One aggregated entry: the dict built at lines 46 to 58 of cinema_service.py. The fields
  \<open>e_title\<close>, \<open>e_genres\<close>, \<open>e_synopsis\<close>, \<open>e_affiche\<close>, \<open>e_director\<close> and
  \<open>e_wantToSee\<close> are the keys \<^verbatim>\<open>title\<close>, \<^verbatim>\<open>genres\<close>, \<^verbatim>\<open>synopsis\<close>, \<^verbatim>\<open>affiche\<close>,
  \<^verbatim>\<open>director\<close> and \<^verbatim>\<open>wantToSee\<close>. A Python dict keeps its keys in the order of their
  first insertion, so \<open>seances\<close> and the dict \<^verbatim>\<open>data\<close> are association lists in that
  order: \<open>AList.update\<close> appends a new key at the end, \<open>AList.map_entry\<close> changes the
  value of a key in place.
\<close>

record entry =
  e_title :: string
  duree :: int
  e_genres :: string
  casting :: string
  realisateur :: string
  e_synopsis :: string
  e_affiche :: string
  e_director :: string
  e_wantToSee :: int
  url :: string
  seances :: "(string \<times> string list) list"

text \<open>\<^verbatim>\<open>start_at.strftime("%H:%M")\<close>: hour and minute, two digits each.\<close>

definition pad2 :: "nat \<Rightarrow> string" where
  "pad2 n = (if n < 10 then CHR ''0'' # py_str_nat n else py_str_nat n)"

definition strftime_HM :: "datetime \<Rightarrow> string" where
  "strftime_HM t = pad2 (hour t) @ '':'' @ pad2 (minute t)"

definition new_entry :: "movie \<Rightarrow> entry" where
  "new_entry m =
     \<lparr>e_title = title m,
      duree = runtime m,
      e_genres = py_join '', '' (genres m),
      casting = py_join '', '' (cast m),
      realisateur = director m,
      e_synopsis = synopsis m,
      e_affiche = affiche m,
      e_director = director m,
      e_wantToSee = wantToSee m,
      url = ''https://www.allocine.fr/film/fichefilm_gen_cfilm='' @ py_str_int (movie_id m)
            @ ''.html'',
      seances = []\<rparr>"

text \<open>The body of the loop over the showtimes (lines 42 to 60).\<close>

definition add_showtime :: "(string \<times> entry) list \<Rightarrow> showtime \<Rightarrow> (string \<times> entry) list" where
  "add_showtime data s =
     (let m = movie s;
          th = theater s;
          data1 = (if title m \<notin> fst ` set data
                   then AList.update (title m) (new_entry m) data else data);
          data2 = AList.map_entry (title m)
                    (\<lambda>e. if name th \<notin> fst ` set (seances e)
                         then e\<lparr>seances := AList.update (name th) [] (seances e)\<rparr> else e)
                    data1
      in AList.map_entry (title m)
           (\<lambda>e. e\<lparr>seances := AList.map_entry (name th)
                                (\<lambda>times. times @ [strftime_HM (start_at s)]) (seances e)\<rparr>)
           data2)"

text \<open>
  \<^verbatim>\<open>sorted(xs, key=..., reverse=True)\<close>: the list is reversed, sorted by a stable sort in
  ascending order and reversed again, which is how the interpreter keeps equal keys in their
  original order.
\<close>

definition py_sorted_reverse :: "('a \<Rightarrow> int) \<Rightarrow> 'a list \<Rightarrow> 'a list" where
  "py_sorted_reverse key xs = rev (sort_key key (rev xs))"

definition aggregate :: "showtime list \<Rightarrow> entry list" where
  "aggregate showtimes =
     py_sorted_reverse e_wantToSee (map snd (foldl add_showtime [] showtimes))"

text \<open>The loop over the theaters (lines 34 to 36), one after the other.\<close>

fun collect_showtimes ::
  "pylib \<Rightarrow> http_client \<Rightarrow> theater list \<Rightarrow> date \<Rightarrow> showtime list \<Rightarrow> call list
     \<Rightarrow> ((error + showtime list) \<times> call list) option" where
  "collect_showtimes lib client [] date showtimes calls = Some (Inr showtimes, calls)"
| "collect_showtimes lib client (th # rest) date showtimes calls =
     (case get_showtimes lib client th date calls of
        None \<Rightarrow> None
      | Some (Inl e, calls') \<Rightarrow> Some (Inl e, calls')
      | Some (Inr found, calls') \<Rightarrow>
          collect_showtimes lib client rest date (showtimes @ found) calls')"

text \<open>
  \<^verbatim>\<open>get_all_showtimes\<close> (cinema_service.py, lines 20 to 62). The module-level list
  \<^verbatim>\<open>theaters\<close> is a parameter.
\<close>

definition get_all_showtimes ::
  "pylib \<Rightarrow> http_client \<Rightarrow> theater list \<Rightarrow> date
     \<Rightarrow> ((error + entry list) \<times> call list) option" where
  "get_all_showtimes lib client theaters date =
     (case collect_showtimes lib client theaters date [] [] of
        None \<Rightarrow> None
      | Some (Inl e, calls) \<Rightarrow> Some (Inl e, calls)
      | Some (Inr showtimes, calls) \<Rightarrow> Some (Inr (aggregate showtimes), calls))"

section \<open>The home route\<close>









section \<open>Vocabulary for the properties of the aggregator\<close>

text \<open>
  These definitions are not part of the program: they say, in the words of the
  specification, what the aggregated view of a list of showtimes is. \<open>first_seen\<close> keeps
  the first occurrence of every element, \<open>index_of\<close> is the position of the first
  occurrence, \<open>times_at\<close> the start times of a title at a theater name in arrival order,
  and \<open>entry_for\<close> the entry expected for a title.
\<close>

definition first_seen :: "'a list \<Rightarrow> 'a list" where
  "first_seen xs = rev (remdups (rev xs))"

definition index_of :: "'a \<Rightarrow> 'a list \<Rightarrow> nat" where
  "index_of x xs = length (takeWhile (\<lambda>y. y \<noteq> x) xs)"





section \<open>Upstream pages in the documented shape, and an example upstream\<close>






















section \<open>Vocabulary for the properties of the cast parser\<close>








section \<open>Vocabulary for the properties of the paginator\<close>







section \<open>Properties of the string primitives\<close>

lemma ebind_simps [simp]: "ebind (Inl e) f = Inl e" "ebind (Inr v) f = f v"
  by (simp_all add: ebind_def)

lemma py_split_from_nonempty: "py_split_from sep cur s \<noteq> []"
  by (induction sep cur s rule: py_split_from.induct) auto

lemma py_split_from_chars:
  "w \<in> set (py_split_from sep cur s) \<Longrightarrow> set w \<subseteq> set cur \<union> set s"
proof (induction sep cur s arbitrary: w rule: py_split_from.induct)
  case (1 sep cur)
  then show ?case by simp
next
  case (2 sep cur c cs)
  show ?case
  proof (cases "sep \<noteq> [] \<and> prefix sep (c # cs)")
    case True
    with "2.prems" have "w = cur \<or> w \<in> set (py_split_from sep [] (drop (length sep) (c # cs)))"
      by simp
    then show ?thesis
    proof
      assume "w = cur"
      then show ?thesis by auto
    next
      assume "w \<in> set (py_split_from sep [] (drop (length sep) (c # cs)))"
      then have "set w \<subseteq> set (drop (length sep) (c # cs))"
        using "2.IH"(1) [OF True] by simp
      also have "\<dots> \<subseteq> set (c # cs)" by (rule set_drop_subset)
      finally show ?thesis by auto
    qed
  next
    case False
    with "2.prems" have "w \<in> set (py_split_from sep (cur @ [c]) cs)" by auto
    then have "set w \<subseteq> set (cur @ [c]) \<union> set cs" using "2.IH"(2) [OF False] by simp
    then show ?thesis by auto
  qed
qed

lemma py_split_chars: "w \<in> set (py_split s sep) \<Longrightarrow> set w \<subseteq> set s"
  using py_split_from_chars [of w sep "[]" s] by (simp add: py_split_def)

lemma py_split_ws_from_chars:
  "w \<in> set (py_split_ws_from cur s) \<Longrightarrow> set w \<subseteq> set cur \<union> set s"
  by (induction cur s arbitrary: w rule: py_split_ws_from.induct) (auto split: if_splits)

lemma py_split_ws_chars: "w \<in> set (py_split_ws s) \<Longrightarrow> set w \<subseteq> set s"
  using py_split_ws_from_chars [of w "[]" s] by (simp add: py_split_ws_def)

lemma py_strip_chars: "set (py_strip s) \<subseteq> set s"
proof -
  have "set (py_strip s) \<subseteq> set (dropWhile int_space s)"
    unfolding py_strip_def using set_dropWhileD by fastforce
  also have "\<dots> \<subseteq> set s" using set_dropWhileD by fastforce
  finally show ?thesis .
qed

lemma py_int_literal_unsigned:
  assumes "py_int_literal s = Some n" and "CHR ''-'' \<notin> set s"
  shows "0 \<le> n"
proof -
  from assms(2) py_strip_chars [of s] have "CHR ''-'' \<notin> set (py_strip s)" by blast
  with assms(1) show ?thesis
    by (auto simp: py_int_literal_def split: list.splits if_splits)
qed

lemma py_int_str_unsigned: "py_int_str s = Inr n \<Longrightarrow> CHR ''-'' \<notin> set s \<Longrightarrow> 0 \<le> n"
  using py_int_literal_unsigned [of s n] by (auto simp: py_int_str_def split: option.splits)

lemma py_first_split: "py_first (py_split s sep) = Inr (hd (py_split s sep))"
  using py_split_from_nonempty [of sep "[]" s]
  by (cases "py_split s sep") (simp_all add: py_first_def py_split_def)

lemma hd_py_split_char:
  "hd (py_split_from [c] cur s) = cur @ takeWhile (\<lambda>x. x \<noteq> c) s"
  by (induction s arbitrary: cur) auto

lemma py_contains_char: "py_contains [c] s = (c \<in> set s)"
  by (induction s) auto

section \<open>Properties of the runtime parser\<close>

lemmas runtime_eval =
  parse_runtime_def py_split_def py_split_ws_def py_first_def py_last_def py_int_str_def
  py_int_literal_def py_nat_literal_def digit_val_def py_strip_def int_space_def py_isspace_def

lemma parse_runtime_str:
  "parse_runtime (JStr s) =
     ebind (if py_contains ''h'' s then py_int_str (hd (py_split s ''h'')) else Inr 0) (\<lambda>hours.
     ebind (if py_contains ''min'' s
            then ebind (py_last (py_split_ws (hd (py_split s ''min'')))) py_int_str
            else Inr 0) (\<lambda>minutes. Inr (hours * 60 + minutes)))"
  by (simp add: parse_runtime_def py_first_split)

lemma parse_runtime_components:
  assumes "parse_runtime (JStr s) = Inr r"
  shows "\<exists>hours minutes. r = hours * 60 + minutes
     \<and> (if py_contains ''h'' s
        then py_int_str (takeWhile (\<lambda>c. c \<noteq> CHR ''h'') s) = Inr hours else hours = 0)
     \<and> (if py_contains ''min'' s
        then py_split_ws (hd (py_split s ''min'')) \<noteq> []
           \<and> py_int_str (last (py_split_ws (hd (py_split s ''min'')))) = Inr minutes
        else minutes = 0)"
  using assms
  by (auto simp: parse_runtime_str ebind_def py_last_def py_split_def hd_py_split_char
           split: sum.splits if_splits)

lemma parse_runtime_unsigned:
  assumes "parse_runtime (JStr s) = Inr r" and "CHR ''-'' \<notin> set s"
  shows "0 \<le> r"
proof -
  from parse_runtime_components [OF assms(1)] obtain hours minutes where
    r: "r = hours * 60 + minutes"
    and h: "if py_contains ''h'' s
        then py_int_str (takeWhile (\<lambda>c. c \<noteq> CHR ''h'') s) = Inr hours else hours = 0"
    and m: "if py_contains ''min'' s
        then py_split_ws (hd (py_split s ''min'')) \<noteq> []
           \<and> py_int_str (last (py_split_ws (hd (py_split s ''min'')))) = Inr minutes
        else minutes = 0"
    by blast
  have "0 \<le> hours"
  proof (cases "py_contains ''h'' s")
    case True
    with h have "py_int_str (takeWhile (\<lambda>c. c \<noteq> CHR ''h'') s) = Inr hours" by simp
    moreover have "CHR ''-'' \<notin> set (takeWhile (\<lambda>c. c \<noteq> CHR ''h'') s)"
      using assms(2) set_takeWhileD by fastforce
    ultimately show ?thesis by (rule py_int_str_unsigned)
  next
    case False
    with h show ?thesis by simp
  qed
  moreover have "0 \<le> minutes"
  proof (cases "py_contains ''min'' s")
    case True
    let ?ws = "py_split_ws (hd (py_split s ''min''))"
    from True m have ne: "?ws \<noteq> []" and i: "py_int_str (last ?ws) = Inr minutes" by simp_all
    have "hd (py_split s ''min'') \<in> set (py_split s ''min'')"
      using py_split_from_nonempty [of "''min''" "[]" s] by (simp add: py_split_def)
    then have "set (hd (py_split s ''min'')) \<subseteq> set s" by (rule py_split_chars)
    moreover from ne have "last ?ws \<in> set ?ws" by simp
    then have "set (last ?ws) \<subseteq> set (hd (py_split s ''min''))" by (rule py_split_ws_chars)
    ultimately have "CHR ''-'' \<notin> set (last ?ws)" using assms(2) by blast
    with i show ?thesis by (rule py_int_str_unsigned)
  next
    case False
    with m show ?thesis by simp
  qed
  ultimately show ?thesis using r by simp
qed

lemma parse_runtime_no_marker:
  "\<not> py_contains ''h'' s \<Longrightarrow> \<not> py_contains ''min'' s \<Longrightarrow> parse_runtime (JStr s) = Inr 0"
  by (simp add: parse_runtime_str)

lemma parse_runtime_bad_hours:
  assumes "py_contains ''h'' s" and "py_int_literal (takeWhile (\<lambda>c. c \<noteq> CHR ''h'') s) = None"
  shows "parse_runtime (JStr s) = Inl ValueError"
  using assms by (simp add: parse_runtime_str py_split_def hd_py_split_char py_int_str_def)

lemma parse_runtime_from_components:
  assumes "if py_contains ''h'' s
        then py_int_str (takeWhile (\<lambda>c. c \<noteq> CHR ''h'') s) = Inr hours else hours = 0"
    and "if py_contains ''min'' s
        then py_split_ws (hd (py_split s ''min'')) \<noteq> []
           \<and> py_int_str (last (py_split_ws (hd (py_split s ''min'')))) = Inr minutes
        else minutes = 0"
  shows "parse_runtime (JStr s) = Inr (hours * 60 + minutes)"
proof -
  have h: "(if py_contains ''h'' s then py_int_str (hd (py_split s ''h'')) else Inr 0) = Inr hours"
    using assms(1) by (simp add: py_split_def hd_py_split_char split: if_splits)
  have m: "(if py_contains ''min'' s
            then ebind (py_last (py_split_ws (hd (py_split s ''min'')))) py_int_str
            else Inr 0) = Inr minutes"
    using assms(2) by (simp add: py_last_def split: if_splits)
  show ?thesis by (simp only: parse_runtime_str h m ebind_simps)
qed

lemma parse_runtime_iff:
  "parse_runtime (JStr s) = Inr r \<longleftrightarrow>
     (\<exists>hours minutes. r = hours * 60 + minutes
        \<and> (if py_contains ''h'' s
           then py_int_str (takeWhile (\<lambda>c. c \<noteq> CHR ''h'') s) = Inr hours
           else hours = 0)
        \<and> (if py_contains ''min'' s
           then py_split_ws (hd (py_split s ''min'')) \<noteq> []
              \<and> py_int_str (last (py_split_ws (hd (py_split s ''min'')))) = Inr minutes
           else minutes = 0))"
proof
  assume "parse_runtime (JStr s) = Inr r"
  then show "\<exists>hours minutes. r = hours * 60 + minutes
        \<and> (if py_contains ''h'' s
           then py_int_str (takeWhile (\<lambda>c. c \<noteq> CHR ''h'') s) = Inr hours
           else hours = 0)
        \<and> (if py_contains ''min'' s
           then py_split_ws (hd (py_split s ''min'')) \<noteq> []
              \<and> py_int_str (last (py_split_ws (hd (py_split s ''min'')))) = Inr minutes
           else minutes = 0)"
    by (rule parse_runtime_components)
next
  assume "\<exists>hours minutes. r = hours * 60 + minutes
        \<and> (if py_contains ''h'' s
           then py_int_str (takeWhile (\<lambda>c. c \<noteq> CHR ''h'') s) = Inr hours
           else hours = 0)
        \<and> (if py_contains ''min'' s
           then py_split_ws (hd (py_split s ''min'')) \<noteq> []
              \<and> py_int_str (last (py_split_ws (hd (py_split s ''min'')))) = Inr minutes
           else minutes = 0)"
  then obtain hours minutes where "r = hours * 60 + minutes"
    and "if py_contains ''h'' s
           then py_int_str (takeWhile (\<lambda>c. c \<noteq> CHR ''h'') s) = Inr hours
           else hours = 0"
    and "if py_contains ''min'' s
           then py_split_ws (hd (py_split s ''min'')) \<noteq> []
              \<and> py_int_str (last (py_split_ws (hd (py_split s ''min'')))) = Inr minutes
           else minutes = 0"
    by blast
  then show "parse_runtime (JStr s) = Inr r"
    using parse_runtime_from_components [of s hours minutes] by simp
qed

text \<open>When the parser raises, and what: the hours are read first, then the minutes.\<close>

lemma parse_runtime_raises:
  "parse_runtime (JStr s) = Inl e \<longleftrightarrow>
     (if py_contains ''h'' s \<and> py_int_literal (takeWhile (\<lambda>c. c \<noteq> CHR ''h'') s) = None
      then e = ValueError
      else py_contains ''min'' s
         \<and> (if py_split_ws (hd (py_split s ''min'')) = [] then e = IndexError
            else py_int_literal (last (py_split_ws (hd (py_split s ''min'')))) = None
               \<and> e = ValueError))"
  by (auto simp: parse_runtime_str py_split_def hd_py_split_char py_int_str_def py_last_def
           split: option.splits)

text \<open>
  C7: the runtime parser gives 114 for "1h 54min", 120 for "2h", 45 for "45min", 0 for the
  empty string and 0 for None; and in general, on a string, it returns r exactly when r is
  hours * 60 + minutes, where hours is the integer read from the text before the first "h"
  (0 when there is no "h") and minutes the integer read from the last word before the first
  "min" (0 when there is no "min"). Both directions hold: a returned value has this form,
  and whenever the two components can be read the parser returns their combination.
\<close>

theorem parse_runtime_hours_minutes:
  "parse_runtime (JStr ''1h 54min'') = Inr 114
   \<and> parse_runtime (JStr ''2h'') = Inr 120
   \<and> parse_runtime (JStr ''45min'') = Inr 45
   \<and> parse_runtime (JStr []) = Inr 0
   \<and> parse_runtime JNull = Inr 0
   \<and> (\<forall>s r. parse_runtime (JStr s) = Inr r \<longleftrightarrow>
         (\<exists>hours minutes. r = hours * 60 + minutes
            \<and> (if py_contains ''h'' s
               then py_int_str (takeWhile (\<lambda>c. c \<noteq> CHR ''h'') s) = Inr hours
               else hours = 0)
            \<and> (if py_contains ''min'' s
               then py_split_ws (hd (py_split s ''min'')) \<noteq> []
                  \<and> py_int_str (last (py_split_ws (hd (py_split s ''min'')))) = Inr minutes
               else minutes = 0)))"
proof -
  have "parse_runtime (JStr ''1h 54min'') = Inr 114" by (simp add: runtime_eval)
  moreover have "parse_runtime (JStr ''2h'') = Inr 120" by (simp add: runtime_eval)
  moreover have "parse_runtime (JStr ''45min'') = Inr 45" by (simp add: runtime_eval)
  moreover have "parse_runtime (JStr []) = Inr 0" by (simp add: runtime_eval)
  moreover have "parse_runtime JNull = Inr 0" by (simp add: parse_runtime_def)
  ultimately show ?thesis using parse_runtime_iff by blast
qed

theorem parse_runtime_hours_minutes_witness:
  "py_int_str ''1'' = Inr 1 \<and> py_int_str ''30'' = Inr 30
   \<and> parse_runtime (JStr ''1h 30min'') = Inr 90
   \<and> py_int_str ''3'' = Inr 3
   \<and> parse_runtime (JStr ''3h'') = Inr 180"
proof -
  have i1: "py_int_str ''1'' = Inr 1" and i30: "py_int_str ''30'' = Inr 30"
    and i3: "py_int_str ''3'' = Inr 3"
    by (simp_all add: runtime_eval)
  have w: "py_split_ws (hd (py_split ''1h 30min'' ''min'')) = [''1h'', ''30'']"
    by (simp add: py_split_def py_split_ws_def py_isspace_def)
  have "\<exists>hours minutes. (90::int) = hours * 60 + minutes
          \<and> (if py_contains ''h'' ''1h 30min''
             then py_int_str (takeWhile (\<lambda>c. c \<noteq> CHR ''h'') ''1h 30min'') = Inr hours
             else hours = 0)
          \<and> (if py_contains ''min'' ''1h 30min''
             then py_split_ws (hd (py_split ''1h 30min'' ''min'')) \<noteq> []
                \<and> py_int_str (last (py_split_ws (hd (py_split ''1h 30min'' ''min''))))
                    = Inr minutes
             else minutes = 0)"
    using i1 i30 by (intro exI [of _ 1] exI [of _ 30]) (simp add: w)
  with parse_runtime_hours_minutes have a: "parse_runtime (JStr ''1h 30min'') = Inr 90"
    by blast
  have "\<exists>hours minutes. (180::int) = hours * 60 + minutes
          \<and> (if py_contains ''h'' ''3h''
             then py_int_str (takeWhile (\<lambda>c. c \<noteq> CHR ''h'') ''3h'') = Inr hours
             else hours = 0)
          \<and> (if py_contains ''min'' ''3h''
             then py_split_ws (hd (py_split ''3h'' ''min'')) \<noteq> []
                \<and> py_int_str (last (py_split_ws (hd (py_split ''3h'' ''min'')))) = Inr minutes
             else minutes = 0)"
    using i3 by (intro exI [of _ 3] exI [of _ 0]) simp
  with parse_runtime_hours_minutes have b: "parse_runtime (JStr ''3h'') = Inr 180"
    by blast
  from i1 i30 i3 a b show ?thesis by simp
qed

text \<open>
  C4, as the code has it: \<^verbatim>\<open>int\<close> accepts a sign, so the parser returns a negative number
  for a runtime such as "-5h". The result is 0 for None, and at least 0 for every string
  without a minus sign on which the parser returns.
\<close>

theorem parse_runtime_negative_counterexample:
  "parse_runtime (JStr ''-5h'') = Inr (- 300) \<and> \<not> (0::int) \<le> - 300"
  by (simp add: runtime_eval)

theorem parse_runtime_nonneg_unsigned:
  "parse_runtime JNull = Inr 0
   \<and> (\<forall>s r. parse_runtime (JStr s) = Inr r \<and> CHR ''-'' \<notin> set s \<longrightarrow> 0 \<le> r)"
proof -
  have "parse_runtime JNull = Inr 0" by (simp add: parse_runtime_def)
  then show ?thesis using parse_runtime_unsigned by blast
qed

theorem parse_runtime_nonneg_unsigned_witness:
  "parse_runtime (JStr ''2h'') = Inr 120 \<and> CHR ''-'' \<notin> set ''2h'' \<and> (0::int) \<le> 120"
proof -
  have ret: "parse_runtime (JStr ''2h'') = Inr 120" by (simp add: runtime_eval)
  have nosign: "CHR ''-'' \<notin> set ''2h''" by simp
  from parse_runtime_nonneg_unsigned ret nosign have "(0::int) \<le> 120" by blast
  with ret nosign show ?thesis by simp
qed

text \<open>
  C5, as the code has it: "invalid" contains neither "h" nor "min", so no number is read and
  the parser returns 0, as it does for every string without a marker. The parser raises, and
  does not catch, in exactly these cases. When "h" is there and the text before the first
  "h" is not an integer, it raises \<^verbatim>\<open>ValueError\<close> ("xh"). Otherwise, when "min" is there,
  it raises \<^verbatim>\<open>IndexError\<close> if no word stands before the first "min" ("min"), and
  \<^verbatim>\<open>ValueError\<close> if the last word before the first "min" is not an integer ("xmin").
\<close>

theorem parse_runtime_invalid_counterexample:
  "parse_runtime (JStr ''invalid'') = Inr 0 \<and> \<not> isl (parse_runtime (JStr ''invalid''))"
  by (simp add: runtime_eval)

theorem parse_runtime_invalid_returns_zero:
  "parse_runtime (JStr ''invalid'') = Inr 0
   \<and> parse_runtime (JStr ''xh'') = Inl ValueError
   \<and> parse_runtime (JStr ''xmin'') = Inl ValueError
   \<and> parse_runtime (JStr ''min'') = Inl IndexError
   \<and> (\<forall>s. \<not> py_contains ''h'' s \<and> \<not> py_contains ''min'' s \<longrightarrow> parse_runtime (JStr s) = Inr 0)
   \<and> (\<forall>s e. parse_runtime (JStr s) = Inl e \<longleftrightarrow>
         (if py_contains ''h'' s
             \<and> py_int_literal (takeWhile (\<lambda>c. c \<noteq> CHR ''h'') s) = None
          then e = ValueError
          else py_contains ''min'' s
             \<and> (if py_split_ws (hd (py_split s ''min'')) = [] then e = IndexError
                else py_int_literal (last (py_split_ws (hd (py_split s ''min'')))) = None
                   \<and> e = ValueError)))"
proof -
  have "parse_runtime (JStr ''invalid'') = Inr 0" by (simp add: runtime_eval)
  moreover have "parse_runtime (JStr ''xh'') = Inl ValueError" by (simp add: runtime_eval)
  moreover have "parse_runtime (JStr ''xmin'') = Inl ValueError" by (simp add: runtime_eval)
  moreover have "parse_runtime (JStr ''min'') = Inl IndexError" by (simp add: runtime_eval)
  moreover have "\<forall>s. \<not> py_contains ''h'' s \<and> \<not> py_contains ''min'' s
      \<longrightarrow> parse_runtime (JStr s) = Inr 0"
    using parse_runtime_no_marker by blast
  moreover have "\<forall>s e. parse_runtime (JStr s) = Inl e \<longleftrightarrow>
         (if py_contains ''h'' s
             \<and> py_int_literal (takeWhile (\<lambda>c. c \<noteq> CHR ''h'') s) = None
          then e = ValueError
          else py_contains ''min'' s
             \<and> (if py_split_ws (hd (py_split s ''min'')) = [] then e = IndexError
                else py_int_literal (last (py_split_ws (hd (py_split s ''min'')))) = None
                   \<and> e = ValueError))"
    using parse_runtime_raises by blast
  ultimately show ?thesis by (intro conjI)
qed

theorem parse_runtime_invalid_returns_zero_witness:
  "\<not> py_contains ''h'' ''abc'' \<and> \<not> py_contains ''min'' ''abc''
   \<and> parse_runtime (JStr ''abc'') = Inr 0
   \<and> py_contains ''h'' ''1.5h''
   \<and> py_int_literal (takeWhile (\<lambda>c. c \<noteq> CHR ''h'') ''1.5h'') = None
   \<and> parse_runtime (JStr ''1.5h'') = Inl ValueError
   \<and> py_contains ''min'' ''2h min''
   \<and> py_split_ws (hd (py_split ''2h min'' ''min'')) = [''2h'']
   \<and> py_int_literal ''2h'' = None
   \<and> parse_runtime (JStr ''2h min'') = Inl ValueError
   \<and> py_split_ws (hd (py_split '' min'' ''min'')) = []
   \<and> parse_runtime (JStr '' min'') = Inl IndexError"
proof -
  note lit = py_int_literal_def py_nat_literal_def digit_val_def py_strip_def int_space_def
  note spl = py_split_def py_split_ws_def py_isspace_def
  have a: "\<not> py_contains ''h'' ''abc'' \<and> \<not> py_contains ''min'' ''abc''" by simp
  have b: "py_contains ''h'' ''1.5h''
     \<and> py_int_literal (takeWhile (\<lambda>c. c \<noteq> CHR ''h'') ''1.5h'') = None"
    by (simp add: lit)
  have c: "py_contains ''h'' ''2h min'' \<and> py_contains ''min'' ''2h min''
     \<and> py_int_literal (takeWhile (\<lambda>c. c \<noteq> CHR ''h'') ''2h min'') = Some 2
     \<and> py_split_ws (hd (py_split ''2h min'' ''min'')) = [''2h'']
     \<and> py_int_literal ''2h'' = None"
    by (simp add: lit spl)
  have d: "\<not> py_contains ''h'' '' min'' \<and> py_contains ''min'' '' min''
     \<and> py_split_ws (hd (py_split '' min'' ''min'')) = []"
    by (simp add: spl)
  from parse_runtime_invalid_returns_zero a have ra: "parse_runtime (JStr ''abc'') = Inr 0"
    by blast
  from parse_runtime_invalid_returns_zero
  have "parse_runtime (JStr ''1.5h'') = Inl ValueError \<longleftrightarrow>
         (if py_contains ''h'' ''1.5h''
             \<and> py_int_literal (takeWhile (\<lambda>c. c \<noteq> CHR ''h'') ''1.5h'') = None
          then ValueError = ValueError
          else py_contains ''min'' ''1.5h''
             \<and> (if py_split_ws (hd (py_split ''1.5h'' ''min'')) = [] then ValueError = IndexError
                else py_int_literal (last (py_split_ws (hd (py_split ''1.5h'' ''min'')))) = None
                   \<and> ValueError = ValueError))"
    by blast
  with b have rb: "parse_runtime (JStr ''1.5h'') = Inl ValueError" by simp
  from parse_runtime_invalid_returns_zero
  have "parse_runtime (JStr ''2h min'') = Inl ValueError \<longleftrightarrow>
         (if py_contains ''h'' ''2h min''
             \<and> py_int_literal (takeWhile (\<lambda>c. c \<noteq> CHR ''h'') ''2h min'') = None
          then ValueError = ValueError
          else py_contains ''min'' ''2h min''
             \<and> (if py_split_ws (hd (py_split ''2h min'' ''min'')) = []
                then ValueError = IndexError
                else py_int_literal (last (py_split_ws (hd (py_split ''2h min'' ''min''))))
                       = None
                   \<and> ValueError = ValueError))"
    by blast
  with c have rc: "parse_runtime (JStr ''2h min'') = Inl ValueError" by simp
  from parse_runtime_invalid_returns_zero
  have "parse_runtime (JStr '' min'') = Inl IndexError \<longleftrightarrow>
         (if py_contains ''h'' '' min''
             \<and> py_int_literal (takeWhile (\<lambda>c. c \<noteq> CHR ''h'') '' min'') = None
          then IndexError = ValueError
          else py_contains ''min'' '' min''
             \<and> (if py_split_ws (hd (py_split '' min'' ''min'')) = []
                then IndexError = IndexError
                else py_int_literal (last (py_split_ws (hd (py_split '' min'' ''min''))))
                       = None
                   \<and> IndexError = ValueError))"
    by blast
  with d have rd: "parse_runtime (JStr '' min'') = Inl IndexError" by simp
  from a b c d ra rb rc rd show ?thesis by simp
qed

section \<open>Properties of the aggregator\<close>

lemma first_seen_Nil [simp]: "first_seen [] = []"
  by (simp add: first_seen_def)






lemma map_entry_absent: "k \<notin> fst ` set al \<Longrightarrow> AList.map_entry k g al = al"
  by (induction al) auto














lemma index_of_le: "index_of x xs \<le> length xs"
  by (simp add: index_of_def length_takeWhile_le)











lemma length_py_sorted_reverse [simp]: "length (py_sorted_reverse key xs) = length xs"
  by (simp add: py_sorted_reverse_def)










lemma get_all_showtimes_returns:
  assumes "get_all_showtimes lib client theaters date = Some (Inr out, calls)"
  shows "\<exists>showtimes. collect_showtimes lib client theaters date [] [] = Some (Inr showtimes, calls)
           \<and> out = aggregate showtimes"
  using assms
  by (auto simp: get_all_showtimes_def split: option.splits prod.splits sum.splits)










section \<open>The example upstream, run\<close>







section \<open>Claims on the aggregator\<close>








section \<open>Properties of the cast parser\<close>











section \<open>Properties of the paginator\<close>

lemma loop_fetch_fails:
  assumes "fetch_showtimes_page client (length calls) self date page = Inl e"
  shows "get_showtimes_loop lib client self date page showtimes calls
           = Some (Inl e, calls @ [(internal_id self, date, page)])"
  by (subst get_showtimes_loop.simps) (simp add: assms)


















section \<open>Properties of the home route\<close>





end
